theory Spec2Isabelle
  imports Main "HOL-Library.Multiset"
begin

section \<open>Strings\<close>

text \<open>
  A Python \<open>str\<close> is a sequence of Unicode code points. It is modelled as the list of
  its code points, each a natural number; a \<open>bytes\<close> value is the list of its bytes.
  \<open>ustr\<close> turns a literal of the theory into such a list.
\<close>

type_synonym str = "nat list"
type_synonym bytes = "nat list"

definition ustr :: "string \<Rightarrow> str" where
  "ustr cs = map of_char cs"

definition slash :: nat where "slash = 47"
definition percent :: nat where "percent = 37"
definition quote :: nat where "quote = 39"

text \<open>\<open>s.startswith(p)\<close> and \<open>s.endswith(p)\<close> for one prefix or suffix.\<close>

fun startswith :: "str \<Rightarrow> str \<Rightarrow> bool" where
  "startswith s [] = True"
| "startswith [] (p # ps) = False"
| "startswith (c # cs) (p # ps) = (c = p \<and> startswith cs ps)"

definition endswith :: "str \<Rightarrow> str \<Rightarrow> bool" where
  "endswith s p = startswith (rev s) (rev p)"

text \<open>With a tuple of alternatives, as in \<open>s.startswith(('http:', 'https:'))\<close>.\<close>

definition startswith_any :: "str \<Rightarrow> str list \<Rightarrow> bool" where
  "startswith_any s ps = list_ex (startswith s) ps"

definition endswith_any :: "str \<Rightarrow> str list \<Rightarrow> bool" where
  "endswith_any s ps = list_ex (endswith s) ps"

text \<open>
  \<open>str.lower\<close>. Only the ASCII capitals are mapped here. Python's full mapping also
  changes code points outside ASCII, but none of them lowers to a character of
  \<open>.html\<close>, \<open>.xhtml\<close> or \<open>.htm\<close>, and the only use of \<open>lower\<close> in the program is
  the test for these three suffixes.
\<close>

definition lower_char :: "nat \<Rightarrow> nat" where
  "lower_char c = (if 65 \<le> c \<and> c \<le> 90 then c + 32 else c)"

definition lower :: "str \<Rightarrow> str" where
  "lower s = map lower_char s"

text \<open>\<open>s.split(sep)\<close> for a separator of one character, and \<open>sep.join(parts)\<close>.\<close>

fun split_on :: "nat \<Rightarrow> str \<Rightarrow> str list" where
  "split_on sep [] = [[]]"
| "split_on sep (c # cs) =
     (if c = sep then [] # split_on sep cs
      else (case split_on sep cs of
              [] \<Rightarrow> [[c]]
            | w # ws \<Rightarrow> (c # w) # ws))"

fun join_with :: "nat \<Rightarrow> str list \<Rightarrow> str" where
  "join_with sep [] = []"
| "join_with sep [w] = w"
| "join_with sep (w # v # ws) = w @ sep # join_with sep (v # ws)"

section \<open>posixpath\<close>

text \<open>
  \<open>posixpath.dirname\<close>: the part up to the last slash, with trailing slashes
  stripped unless it consists of slashes only.
\<close>

definition dirname :: "str \<Rightarrow> str" where
  "dirname p =
     (let head = rev (dropWhile (\<lambda>c. c \<noteq> slash) (rev p))
      in if head \<noteq> [] \<and> head \<noteq> replicate (length head) slash
         then rev (dropWhile (\<lambda>c. c = slash) (rev head))
         else head)"

text \<open>\<open>posixpath.join(a, b)\<close> with one component after the base.\<close>

definition join :: "str \<Rightarrow> str \<Rightarrow> str" where
  "join a b =
     (if startswith b [slash] \<or> a = [] then b
      else if endswith a [slash] then a @ b
      else a @ slash # b)"

text \<open>
  \<open>posixpath.normpath\<close>. The loop over the components keeps \<open>new_comps\<close> in
  reverse, so that its last element is the head of the list.
\<close>

fun normpath_comps :: "nat \<Rightarrow> str list \<Rightarrow> str list \<Rightarrow> str list" where
  "normpath_comps initial_slashes new_comps [] = rev new_comps"
| "normpath_comps initial_slashes new_comps (seg # comps) =
     (if seg = [] \<or> seg = ustr ''.''
      then normpath_comps initial_slashes new_comps comps
      else if seg \<noteq> ustr ''..'' \<or> (initial_slashes = 0 \<and> new_comps = [])
              \<or> (new_comps \<noteq> [] \<and> hd new_comps = ustr ''..'')
      then normpath_comps initial_slashes (seg # new_comps) comps
      else if new_comps \<noteq> []
      then normpath_comps initial_slashes (tl new_comps) comps
      else normpath_comps initial_slashes new_comps comps)"

definition normpath :: "str \<Rightarrow> str" where
  "normpath path =
     (if path = [] then ustr ''.''
      else
        let initial_slashes =
              (if startswith path [slash]
               then (if startswith path [slash, slash]
                        \<and> \<not> startswith path [slash, slash, slash]
                     then 2 else 1)
               else 0);
            comps = normpath_comps initial_slashes [] (split_on slash path);
            path' = replicate initial_slashes slash @ join_with slash comps
        in if path' = [] then ustr ''.'' else path')"

section \<open>urllib.parse.unquote\<close>

text \<open>
  \<open>unquote_to_bytes\<close>: the string is split at every percent sign; a piece that
  starts with two hexadecimal digits gives the byte they denote followed by the rest of
  the piece, any other piece is kept with its percent sign. The function is applied to
  ASCII text only (see \<open>unquote\<close>), so encoding the text as UTF-8 changes nothing.
\<close>

definition is_hexdig :: "nat \<Rightarrow> bool" where
  "is_hexdig c = ((48 \<le> c \<and> c \<le> 57) \<or> (65 \<le> c \<and> c \<le> 70) \<or> (97 \<le> c \<and> c \<le> 102))"

definition hexval :: "nat \<Rightarrow> nat" where
  "hexval c = (if c \<le> 57 then c - 48 else if c \<le> 70 then c - 55 else c - 87)"

fun unquote_to_bytes :: "str \<Rightarrow> bytes" where
  "unquote_to_bytes [] = []"
| "unquote_to_bytes (c # cs) =
     (if c = percent
      then (case cs of
              a # b # rest \<Rightarrow>
                if is_hexdig a \<and> is_hexdig b
                then (16 * hexval a + hexval b) # unquote_to_bytes rest
                else c # unquote_to_bytes cs
            | _ \<Rightarrow> c # unquote_to_bytes cs)
      else c # unquote_to_bytes cs)"

text \<open>
  \<open>bytes.decode('utf-8', 'replace')\<close>, as CPython decodes: a well-formed sequence
  gives its code point; an invalid start byte, or a start byte with the following one,
  two or three bytes that cannot continue it, is replaced by U+FFFD and decoding
  resumes after the replaced bytes; a sequence cut off by the end of the data is
  replaced by one U+FFFD.
\<close>

definition is_cont :: "nat \<Rightarrow> bool" where
  "is_cont b = (128 \<le> b \<and> b < 192)"

definition replacement :: nat where
  "replacement = 65533"

fun utf8_decode :: "bytes \<Rightarrow> str" where
  "utf8_decode [] = []"
| "utf8_decode (b # bs) =
     (if b < 128 then b # utf8_decode bs
      else if b < 194 then replacement # utf8_decode bs
      else if b < 224 then
        (case bs of
           [] \<Rightarrow> [replacement]
         | b2 # r2 \<Rightarrow>
             if is_cont b2 then ((b - 192) * 64 + (b2 - 128)) # utf8_decode r2
             else replacement # utf8_decode bs)
      else if b < 240 then
        (case bs of
           [] \<Rightarrow> [replacement]
         | b2 # r2 \<Rightarrow>
             if \<not> is_cont b2 \<or> (b = 224 \<and> b2 < 160) \<or> (b = 237 \<and> 160 \<le> b2)
             then replacement # utf8_decode bs
             else (case r2 of
                     [] \<Rightarrow> [replacement]
                   | b3 # r3 \<Rightarrow>
                       if is_cont b3
                       then ((b - 224) * 4096 + (b2 - 128) * 64 + (b3 - 128)) # utf8_decode r3
                       else replacement # utf8_decode r2))
      else if b < 245 then
        (case bs of
           [] \<Rightarrow> [replacement]
         | b2 # r2 \<Rightarrow>
             if \<not> is_cont b2 \<or> (b = 240 \<and> b2 < 144) \<or> (b = 244 \<and> 144 \<le> b2)
             then replacement # utf8_decode bs
             else (case r2 of
                     [] \<Rightarrow> [replacement]
                   | b3 # r3 \<Rightarrow>
                       if \<not> is_cont b3 then replacement # utf8_decode r2
                       else (case r3 of
                               [] \<Rightarrow> [replacement]
                             | b4 # r4 \<Rightarrow>
                                 if is_cont b4
                                 then ((b - 240) * 262144 + (b2 - 128) * 4096
                                        + (b3 - 128) * 64 + (b4 - 128)) # utf8_decode r4
                                 else replacement # utf8_decode r3)))
      else replacement # utf8_decode bs)"

text \<open>
  \<open>unquote(string)\<close> with the default \<open>encoding='utf-8'\<close>, \<open>errors='replace'\<close>: a
  string without a percent sign is returned as it is; otherwise every maximal run of
  ASCII characters is unquoted to bytes and decoded, and the characters outside ASCII
  are kept. \<open>run\<close> collects the current ASCII run in reverse.
\<close>

fun unquote_parts :: "str \<Rightarrow> str \<Rightarrow> str" where
  "unquote_parts run [] = utf8_decode (unquote_to_bytes (rev run))"
| "unquote_parts run (c # cs) =
     (if c < 128 then unquote_parts (c # run) cs
      else utf8_decode (unquote_to_bytes (rev run)) @ c # unquote_parts [] cs)"

definition unquote :: "str \<Rightarrow> str" where
  "unquote string = (if percent \<notin> set string then string else unquote_parts [] string)"

section \<open>The environment: paths, files, archives, parsed documents\<close>

text \<open>
  An exception is its class and its message (\<open>str(e)\<close>). \<open>BadZipFile\<close> is the one
  class the program names; \<open>OtherException\<close> stands for every other subclass of
  \<open>Exception\<close>.
\<close>

datatype exn = BadZipFile str | OtherException str

fun exn_message :: "exn \<Rightarrow> str" where
  "exn_message (BadZipFile m) = m"
| "exn_message (OtherException m) = m"

text \<open>
  What BeautifulSoup gives for a document: its elements in document order, each with
  its name and its dictionary of attributes. The attributes read by the program
  (\<open>src\<close>, \<open>href\<close>, \<open>xlink:href\<close>) have strings as values.
\<close>

record tag =
  tag_name :: str
  attrs :: "str \<rightharpoonup> str"

type_synonym soup = "tag list"

definition find_all :: "soup \<Rightarrow> str \<Rightarrow> tag list" where
  "find_all sp name = filter (\<lambda>t. tag_name t = name) sp"

definition get :: "tag \<Rightarrow> str \<Rightarrow> str option" where
  "get t key = attrs t key"

text \<open>
  An open archive: the names of its entries, and for each entry the outcome of
  \<open>zf.open(name)\<close> followed by \<open>BeautifulSoup(f, 'lxml')\<close>, which is an exception
  (the entry cannot be read, or the parser rejects it) or the parsed document.
\<close>

record zip_file =
  namelist :: "str list"
  open_soup :: "str \<Rightarrow> exn + soup"

text \<open>
  What lies at a path: a directory, a file that \<open>zipfile.is_zipfile\<close> rejects, a file
  that it accepts but on which the constructor \<open>zipfile.ZipFile\<close> raises, or an archive
  that opens.
\<close>

datatype fnode = Dir | NotZip | Unopenable exn | Zip zip_file

text \<open>
  A \<open>pathlib.Path\<close> is the list of its components, the root of an absolute path being
  the component \<open>/\<close>; \<open>name\<close> is the last component (empty for the root alone), \<open>/\<close>
  adds a component, and \<open>str\<close> joins the components with slashes.
\<close>

type_synonym path = "str list"

definition name :: "path \<Rightarrow> str" where
  "name p = (if p = [] \<or> p = [[slash]] then [] else last p)"



text \<open>
  The logger is configured at level INFO, so a record at level DEBUG is dropped; the
  others are kept in order.
\<close>

datatype level = DEBUG | INFO | WARNING | ERROR

text \<open>
  The world outside the program: the file system, the answer of
  \<open>directory.glob("*.epub")\<close>, the exceptions that \<open>mkdir\<close> and \<open>shutil.move\<close>
  raise for reasons of the environment, the records logged and the lines printed.
\<close>

record world =
  fs :: "path \<rightharpoonup> fnode"
  glob_epub :: "path \<Rightarrow> path list"
  mkdir_error :: "path \<Rightarrow> exn option"
  move_error :: "path \<Rightarrow> path \<Rightarrow> exn option"
  log :: "(level \<times> str) list"
  stdout :: "str list"

definition logger :: "level \<Rightarrow> str \<Rightarrow> world \<Rightarrow> world" where
  "logger lvl msg w = (if lvl = DEBUG then w else w\<lparr>log := log w @ [(lvl, msg)]\<rparr>)"

definition is_zipfile :: "world \<Rightarrow> path \<Rightarrow> bool" where
  "is_zipfile w p =
     (case fs w p of
        Some (Zip zf) \<Rightarrow> True
      | Some (Unopenable e) \<Rightarrow> True
      | _ \<Rightarrow> False)"

definition ZipFile :: "world \<Rightarrow> path \<Rightarrow> exn + zip_file" where
  "ZipFile w p =
     (case fs w p of
        Some (Zip zf) \<Rightarrow> Inr zf
      | Some (Unopenable e) \<Rightarrow> Inl e
      | Some Dir \<Rightarrow> Inl (OtherException (ustr ''Is a directory''))
      | Some NotZip \<Rightarrow> Inl (BadZipFile (ustr ''File is not a zip file''))
      | None \<Rightarrow> Inl (OtherException (ustr ''No such file or directory'')))"

text \<open>
  \<open>set(names)\<close>: a Python set is modelled by the list of its elements in the order
  in which it is iterated, without repetition. Python leaves that order open; the model
  takes the order of first occurrence.
\<close>

definition py_set :: "str list \<Rightarrow> str list" where
  "py_set names = remdups names"

section \<open>EpubValidator\<close>

record validator =
  file_path :: path
  missing_resources :: "str list"
  is_valid_zip :: bool

definition init_validator :: "path \<Rightarrow> validator" where
  "init_validator p = \<lparr>file_path = p, missing_resources = [], is_valid_zip = True\<rparr>"

definition external_schemes :: "str list" where
  "external_schemes = [ustr ''http:'', ustr ''https:'', ustr ''data:'', ustr ''mailto:'']"

definition missing_message :: "str \<Rightarrow> str \<Rightarrow> str" where
  "missing_message target_path context_file =
     ustr ''Missing: '' @ quote # target_path @ quote # ustr '' (referenced in ''
       @ quote # context_file @ quote # ustr '')''"

definition verify_resource :: "validator \<Rightarrow> str \<Rightarrow> str \<Rightarrow> str list \<Rightarrow> str \<Rightarrow> validator" where
  "verify_resource self src base_dir all_files context_file =
     (if startswith_any src external_schemes then self
      else
        let src' = unquote src;
            target_path = normpath (join base_dir src')
        in if target_path \<notin> set all_files
           then self\<lparr>missing_resources :=
                  missing_resources self @ [missing_message target_path context_file]\<rparr>
           else self)"

text \<open>The two loops over the elements of a document.\<close>

definition check_img :: "str \<Rightarrow> str list \<Rightarrow> str \<Rightarrow> tag \<Rightarrow> validator \<Rightarrow> validator" where
  "check_img base_dir all_files html_filename img self =
     (case get img (ustr ''src'') of
        Some src \<Rightarrow>
          if src \<noteq> [] then verify_resource self src base_dir all_files html_filename
          else self
      | None \<Rightarrow> self)"

definition image_href :: "tag \<Rightarrow> str option" where
  "image_href elem =
     (case get elem (ustr ''xlink:href'') of
        Some h \<Rightarrow> if h \<noteq> [] then Some h else get elem (ustr ''href'')
      | None \<Rightarrow> get elem (ustr ''href''))"

definition check_image :: "str \<Rightarrow> str list \<Rightarrow> str \<Rightarrow> tag \<Rightarrow> validator \<Rightarrow> validator" where
  "check_image base_dir all_files html_filename elem self =
     (case image_href elem of
        Some href \<Rightarrow>
          if href \<noteq> [] then verify_resource self href base_dir all_files html_filename
          else self
      | None \<Rightarrow> self)"

text \<open>
  \<open>_scan_file_for_images\<close>. The whole body is inside \<open>try\<close>; the handler catches
  every \<open>Exception\<close> and logs at level DEBUG, which the logger drops. Opening and
  parsing are the only steps that raise.
\<close>

definition scan_file_for_images :: "validator \<Rightarrow> zip_file \<Rightarrow> str \<Rightarrow> str list \<Rightarrow> validator" where
  "scan_file_for_images self zf html_filename all_files =
     (case open_soup zf html_filename of
        Inl e \<Rightarrow> self
      | Inr sp \<Rightarrow>
          let base_dir = dirname html_filename;
              self1 = fold (check_img base_dir all_files html_filename)
                        (find_all sp (ustr ''img'')) self
          in fold (check_image base_dir all_files html_filename)
               (find_all sp (ustr ''image'')) self1)"

definition is_content_document :: "str \<Rightarrow> bool" where
  "is_content_document filename =
     endswith_any (lower filename) [ustr ''.html'', ustr ''.xhtml'', ustr ''.htm'']"

text \<open>
  \<open>_check_content_files\<close>: the loop over the set \<open>all_files\<close>, here over the list
  \<open>names\<close> of the elements still to visit.
\<close>

fun check_content_loop :: "validator \<Rightarrow> zip_file \<Rightarrow> str list \<Rightarrow> str list \<Rightarrow> validator" where
  "check_content_loop self zf all_files [] = self"
| "check_content_loop self zf all_files (filename # names) =
     check_content_loop
       (if is_content_document filename
        then scan_file_for_images self zf filename all_files
        else self)
       zf all_files names"

definition check_content_files :: "validator \<Rightarrow> zip_file \<Rightarrow> str list \<Rightarrow> validator" where
  "check_content_files self zf all_files = check_content_loop self zf all_files all_files"

text \<open>
  \<open>validate\<close> returns its result, the validator as the call leaves it, and the world
  (only the log changes).
\<close>

definition validate :: "world \<Rightarrow> validator \<Rightarrow> bool \<times> validator \<times> world" where
  "validate w self =
     (if \<not> is_zipfile w (file_path self)
      then (False, self\<lparr>is_valid_zip := False\<rparr>, w)
      else
        (case ZipFile w (file_path self) of
           Inr zf \<Rightarrow>
             let all_files = py_set (namelist zf);
                 self' = check_content_files self zf all_files
             in (missing_resources self' = [], self', w)
         | Inl (BadZipFile m) \<Rightarrow> (False, self\<lparr>is_valid_zip := False\<rparr>, w)
         | Inl e \<Rightarrow>
             (False, self,
              logger ERROR
                (ustr ''Error processing '' @ name (file_path self) @ ustr '': ''
                   @ exn_message e) w)))"

section \<open>EpubSorter\<close>














text \<open>\<open>process\<close>: the loop over the files found, then the function.\<close>

fun log_errors :: "str list \<Rightarrow> world \<Rightarrow> world" where
  "log_errors [] w = w"
| "log_errors (error # errors) w = log_errors errors (logger INFO (ustr ''  - '' @ error) w)"



section \<open>Notions used to state the properties\<close>

text \<open>
  What one call of \<open>verify_resource\<close> appends, as a function of the reference, the
  directory, the entry names and the referencing document; and the references that a
  scan extracts from a parsed document, in the order of the two loops.
\<close>

definition verdict :: "str \<Rightarrow> str list \<Rightarrow> str \<Rightarrow> str \<Rightarrow> str list" where
  "verdict base_dir all_files context_file src =
     (if startswith_any src external_schemes
         \<or> normpath (join base_dir (unquote src)) \<in> set all_files
      then []
      else [missing_message (normpath (join base_dir (unquote src))) context_file])"

definition img_refs :: "tag \<Rightarrow> str list" where
  "img_refs img = (case get img (ustr ''src'') of Some src \<Rightarrow> if src \<noteq> [] then [src] else [] | None \<Rightarrow> [])"

definition image_refs :: "tag \<Rightarrow> str list" where
  "image_refs elem = (case image_href elem of Some href \<Rightarrow> if href \<noteq> [] then [href] else [] | None \<Rightarrow> [])"

definition references :: "soup \<Rightarrow> str list" where
  "references sp = concat (map img_refs (find_all sp (ustr ''img'')))
                 @ concat (map image_refs (find_all sp (ustr ''image'')))"

text \<open>
  The resolved target path in the words of the specification: the reference is
  URL-decoded, joined to the directory of the referencing document, and normalized.
\<close>

definition spec_target :: "str \<Rightarrow> str \<Rightarrow> str" where
  "spec_target r d = normpath (join (dirname d) (unquote r))"


section \<open>Archives and worlds used as concrete inputs\<close>

definition mk_world :: "(path \<rightharpoonup> fnode) \<Rightarrow> world" where
  "mk_world files =
     \<lparr>fs = files, glob_epub = (\<lambda>d. []), mkdir_error = (\<lambda>p. None),
      move_error = (\<lambda>s d. None), log = [], stdout = []\<rparr>"

definition img_tag :: "str \<Rightarrow> tag" where
  "img_tag src = \<lparr>tag_name = ustr ''img'', attrs = [ustr ''src'' \<mapsto> src]\<rparr>"

definition book :: path where
  "book = [ustr ''books'', ustr ''a.epub'']"

definition scenario1_archive :: zip_file where
  "scenario1_archive =
     \<lparr>namelist = [ustr ''chapter1.xhtml'', ustr ''pic.jpg''],
      open_soup = (\<lambda>n. Inr [img_tag (ustr ''pic.jpg'')])\<rparr>"

definition scenario2_archive :: zip_file where
  "scenario2_archive =
     \<lparr>namelist = [ustr ''chapter1.xhtml''],
      open_soup = (\<lambda>n. Inr [img_tag (ustr ''pic.jpg'')])\<rparr>"

definition unreadable_archive :: zip_file where
  "unreadable_archive =
     \<lparr>namelist = [ustr ''chapter1.xhtml''],
      open_soup = (\<lambda>n. Inl (OtherException (ustr ''Bad CRC-32'')))\<rparr>"


definition cover_archive :: zip_file where
  "cover_archive =
     \<lparr>namelist = [ustr ''OEBPS/chapter1.xhtml''],
      open_soup = (\<lambda>n. Inr [img_tag (ustr ''cover%20page.jpg'')])\<rparr>"

definition unopenable_world :: world where
  "unopenable_world =
     mk_world [book \<mapsto> Unopenable (OtherException (ustr ''zip file version 9.9''))]"



section \<open>Properties of the validator\<close>

lemma verify_resource_verdict:
  "verify_resource self src base_dir all_files context_file =
     self\<lparr>missing_resources := missing_resources self @ verdict base_dir all_files context_file src\<rparr>"
  by (simp add: verify_resource_def verdict_def Let_def)

lemma fold_appends:
  assumes "\<And>t s. f t s = s\<lparr>missing_resources := missing_resources s @ g t\<rparr>"
  shows "fold f ts self = self\<lparr>missing_resources := missing_resources self @ concat (map g ts)\<rparr>"
  using assms by (induction ts arbitrary: self) simp_all

lemma check_img_verdict:
  "check_img b all d t s = s\<lparr>missing_resources := missing_resources s @ concat (map (verdict b all d) (img_refs t))\<rparr>"
  by (simp add: check_img_def img_refs_def verify_resource_verdict split: option.splits)

lemma check_image_verdict:
  "check_image b all d t s = s\<lparr>missing_resources := missing_resources s @ concat (map (verdict b all d) (image_refs t))\<rparr>"
  by (simp add: check_image_def image_refs_def verify_resource_verdict split: option.splits)

lemma concat_concat: "concat (map (\<lambda>t. concat (map f (g t))) ts) = concat (map f (concat (map g ts)))"
  by (induction ts) simp_all

lemma scan_verdicts:
  "open_soup zf d = Inr sp \<Longrightarrow>
   scan_file_for_images self zf d all =
     self\<lparr>missing_resources := missing_resources self @ concat (map (verdict (dirname d) all d) (references sp))\<rparr>"
  by (simp add: scan_file_for_images_def Let_def references_def concat_concat
        fold_appends[where g="\<lambda>t. concat (map (verdict (dirname d) all d) (img_refs t))", OF check_img_verdict]
        fold_appends[where g="\<lambda>t. concat (map (verdict (dirname d) all d) (image_refs t))", OF check_image_verdict])

lemma scan_raises:
  "open_soup zf d = Inl e \<Longrightarrow> scan_file_for_images self zf d all = self"
  by (simp add: scan_file_for_images_def)



lemma concat_verdict:
  "concat (map (verdict b all d) rs) =
   map (\<lambda>r. missing_message (normpath (join b (unquote r))) d)
     (filter (\<lambda>r. \<not> startswith_any r external_schemes \<and> normpath (join b (unquote r)) \<notin> set all) rs)"
  by (induction rs) (simp_all add: verdict_def)

lemma fold_verify_pairs:
  "fold (\<lambda>(src, d) s. verify_resource s src (dirname d) all_files d) refs self =
   self\<lparr>missing_resources := missing_resources self
          @ concat (map (\<lambda>(src, d). verdict (dirname d) all_files d src) refs)\<rparr>"
  by (rule fold_appends) (simp add: verify_resource_verdict split: prod.splits)

lemma mset_concat_map: "mset (concat (map g xs)) = (\<Sum>x\<in>#mset xs. mset (g x))"
  by (induction xs) simp_all

lemma verify_resource_internal:
  "\<not> startswith_any src external_schemes \<Longrightarrow>
   verify_resource self src base_dir all_files context_file =
     (if normpath (join base_dir (unquote src)) \<in> set all_files then self
      else self\<lparr>missing_resources := missing_resources self
             @ [missing_message (normpath (join base_dir (unquote src))) context_file]\<rparr>)"
  by (simp add: verify_resource_def Let_def)

lemma utf8_decode_ascii: "\<forall>b \<in> set bs. b < 128 \<Longrightarrow> utf8_decode bs = bs"
  by (induction bs) simp_all

lemma unquote_to_bytes_plain:
  "percent \<notin> set s \<Longrightarrow> unquote_to_bytes (s @ rest) = s @ unquote_to_bytes rest"
  by (induction s) simp_all

lemma unquote_to_bytes_no_percent: "percent \<notin> set s \<Longrightarrow> unquote_to_bytes s = s"
  using unquote_to_bytes_plain [of s "[]"] by simp

lemma unquote_parts_ascii:
  "\<forall>c \<in> set cs. c < 128 \<Longrightarrow>
   unquote_parts run cs = utf8_decode (unquote_to_bytes (rev run @ cs))"
  by (induction cs arbitrary: run) simp_all

lemma unquote_escape:
  assumes s: "\<forall>c \<in> set s. c < 128 \<and> c \<noteq> percent"
      and t: "\<forall>c \<in> set t. c < 128 \<and> c \<noteq> percent"
      and h: "is_hexdig a" "is_hexdig b"
      and v: "16 * hexval a + hexval b < 128"
  shows "unquote (s @ [percent, a, b] @ t) = s @ [16 * hexval a + hexval b] @ t"
proof -
  have ps: "percent \<notin> set s" and pt: "percent \<notin> set t" using s t by auto
  have ab: "a < 128" "b < 128" using h by (auto simp: is_hexdig_def)
  have asc: "\<forall>c \<in> set (s @ [percent, a, b] @ t). c < 128"
    using s t ab by (auto simp: percent_def)
  have "unquote (s @ [percent, a, b] @ t)
        = utf8_decode (unquote_to_bytes (s @ [percent, a, b] @ t))"
    using unquote_parts_ascii [OF asc, of "[]"] by (simp add: unquote_def)
  also have "unquote_to_bytes (s @ [percent, a, b] @ t)
        = s @ [16 * hexval a + hexval b] @ t"
    using h by (simp add: unquote_to_bytes_plain [OF ps] unquote_to_bytes_no_percent [OF pt])
  also have "utf8_decode (s @ [16 * hexval a + hexval b] @ t) = s @ [16 * hexval a + hexval b] @ t"
    by (rule utf8_decode_ascii) (use s t v in auto)
  finally show ?thesis .
qed

text \<open>
  C1. \<open>validate\<close> returns true exactly when the path opens as a zip container
  (\<open>is_zipfile\<close> accepts it and the constructor \<open>ZipFile\<close> returns an archive) and the
  list of missing resources it leaves is empty.
\<close>

theorem validate_true_iff:
  "fst (validate w self) \<longleftrightarrow>
     (is_zipfile w (file_path self) \<and> \<not> isl (ZipFile w (file_path self)))
     \<and> missing_resources (fst (snd (validate w self))) = []"
  by (auto simp: validate_def Let_def split: sum.splits exn.splits)

theorem validate_true_iff_witness:
  "fst (validate (mk_world [book \<mapsto> Zip scenario1_archive]) (init_validator book))
   \<and> \<not> fst (validate (mk_world [book \<mapsto> Zip scenario2_archive]) (init_validator book))
   \<and> \<not> fst (validate (mk_world [book \<mapsto> NotZip]) (init_validator book))"
proof -
  let ?v = "init_validator book"
  have a: "is_zipfile (mk_world [book \<mapsto> Zip scenario1_archive]) (file_path ?v)" by code_simp
  have b: "\<not> isl (ZipFile (mk_world [book \<mapsto> Zip scenario1_archive]) (file_path ?v))" by code_simp
  have c: "missing_resources (fst (snd (validate (mk_world [book \<mapsto> Zip scenario1_archive]) ?v))) = []"
    by code_simp
  have d: "missing_resources (fst (snd (validate (mk_world [book \<mapsto> Zip scenario2_archive]) ?v))) \<noteq> []"
    by code_simp
  have e: "\<not> is_zipfile (mk_world [book \<mapsto> NotZip]) (file_path ?v)" by code_simp
  show ?thesis
    using a b c d e
      validate_true_iff [of "mk_world [book \<mapsto> Zip scenario1_archive]" ?v]
      validate_true_iff [of "mk_world [book \<mapsto> Zip scenario2_archive]" ?v]
      validate_true_iff [of "mk_world [book \<mapsto> NotZip]" ?v]
    by blast
qed

text \<open>
  C2. A scan of a content document \<open>d\<close> treats every reference \<open>r\<close> it extracts that is
  not external through the target path \<open>normpath (join (dirname d) (unquote r))\<close>: the
  descriptions it appends are those of the references whose target path is not an entry,
  each naming that path. Percent-escapes are decoded first: a reference with an escape
  \<open>%ab\<close> of an ASCII character in otherwise plain ASCII text is resolved as the same text
  with that character in place of the escape. A document at \<open>OEBPS/chapter1.xhtml\<close>
  referencing \<open>../images/fig1.png\<close> resolves to \<open>images/fig1.png\<close>, and one referencing
  \<open>cover%20page.jpg\<close> resolves to \<open>OEBPS/cover page.jpg\<close>, also when an entry
  \<open>OEBPS/cover%20page.jpg\<close> exists.
\<close>

theorem resolved_target_path:
  "(open_soup zf d = Inr sp \<longrightarrow>
      missing_resources (scan_file_for_images self zf d all_files) =
        missing_resources self
        @ map (\<lambda>r. missing_message (spec_target r d) d)
            (filter (\<lambda>r. \<not> startswith_any r external_schemes \<and> spec_target r d \<notin> set all_files)
               (references sp)))
   \<and> ((\<forall>c \<in> set s. c < 128 \<and> c \<noteq> percent) \<and> (\<forall>c \<in> set t. c < 128 \<and> c \<noteq> percent)
        \<and> is_hexdig a \<and> is_hexdig b \<and> 16 * hexval a + hexval b < 128
        \<and> \<not> startswith_any (s @ [percent, a, b] @ t) external_schemes \<longrightarrow>
      spec_target (s @ [percent, a, b] @ t) d
        = normpath (join (dirname d) (s @ [16 * hexval a + hexval b] @ t))
      \<and> verify_resource self (s @ [percent, a, b] @ t) base_dir all_files d =
          (if normpath (join base_dir (s @ [16 * hexval a + hexval b] @ t)) \<in> set all_files
           then self
           else self\<lparr>missing_resources := missing_resources self
                  @ [missing_message
                       (normpath (join base_dir (s @ [16 * hexval a + hexval b] @ t))) d]\<rparr>))
   \<and> spec_target (ustr ''../images/fig1.png'') (ustr ''OEBPS/chapter1.xhtml'') = ustr ''images/fig1.png''
   \<and> spec_target (ustr ''cover%20page.jpg'') (ustr ''OEBPS/chapter1.xhtml'')
       = ustr ''OEBPS/cover page.jpg''
   \<and> missing_resources
       (scan_file_for_images (init_validator book) cover_archive (ustr ''OEBPS/chapter1.xhtml'')
          [ustr ''OEBPS/chapter1.xhtml'', ustr ''OEBPS/cover%20page.jpg''])
     = [ustr ''Missing: 'OEBPS/cover page.jpg' (referenced in 'OEBPS/chapter1.xhtml')'']"
proof (intro conjI impI)
  assume "open_soup zf d = Inr sp"
  then show "missing_resources (scan_file_for_images self zf d all_files) =
        missing_resources self
        @ map (\<lambda>r. missing_message (spec_target r d) d)
            (filter (\<lambda>r. \<not> startswith_any r external_schemes \<and> spec_target r d \<notin> set all_files)
               (references sp))"
    by (simp add: scan_verdicts concat_verdict spec_target_def)
next
  assume a: "(\<forall>c \<in> set s. c < 128 \<and> c \<noteq> percent) \<and> (\<forall>c \<in> set t. c < 128 \<and> c \<noteq> percent)
        \<and> is_hexdig a \<and> is_hexdig b \<and> 16 * hexval a + hexval b < 128
        \<and> \<not> startswith_any (s @ [percent, a, b] @ t) external_schemes"
  then have u: "unquote (s @ [percent, a, b] @ t) = s @ [16 * hexval a + hexval b] @ t"
    by (intro unquote_escape) simp_all
  show "spec_target (s @ [percent, a, b] @ t) d
        = normpath (join (dirname d) (s @ [16 * hexval a + hexval b] @ t))"
    by (simp only: spec_target_def u)
  from a have "\<not> startswith_any (s @ [percent, a, b] @ t) external_schemes" by simp
  from verify_resource_internal [OF this]
  show "verify_resource self (s @ [percent, a, b] @ t) base_dir all_files d =
          (if normpath (join base_dir (s @ [16 * hexval a + hexval b] @ t)) \<in> set all_files
           then self
           else self\<lparr>missing_resources := missing_resources self
                  @ [missing_message
                       (normpath (join base_dir (s @ [16 * hexval a + hexval b] @ t))) d]\<rparr>)"
    by (simp only: u)
next
  show "spec_target (ustr ''../images/fig1.png'') (ustr ''OEBPS/chapter1.xhtml'') = ustr ''images/fig1.png''"
    by code_simp
  show "spec_target (ustr ''cover%20page.jpg'') (ustr ''OEBPS/chapter1.xhtml'')
       = ustr ''OEBPS/cover page.jpg''"
    by code_simp
  show "missing_resources
       (scan_file_for_images (init_validator book) cover_archive (ustr ''OEBPS/chapter1.xhtml'')
          [ustr ''OEBPS/chapter1.xhtml'', ustr ''OEBPS/cover%20page.jpg''])
     = [ustr ''Missing: 'OEBPS/cover page.jpg' (referenced in 'OEBPS/chapter1.xhtml')'']"
    by code_simp
qed

theorem resolved_target_path_witness:
  "open_soup cover_archive (ustr ''OEBPS/chapter1.xhtml'')
     = Inr [img_tag (ustr ''cover%20page.jpg'')]
   \<and> list_all (\<lambda>c. c < 128 \<and> c \<noteq> percent) (ustr ''cover'')
   \<and> list_all (\<lambda>c. c < 128 \<and> c \<noteq> percent) (ustr ''page.jpg'')
   \<and> is_hexdig 50 \<and> is_hexdig 48 \<and> 16 * hexval 50 + hexval 48 < 128
   \<and> \<not> startswith_any (ustr ''cover%20page.jpg'') external_schemes
   \<and> missing_resources
       (scan_file_for_images (init_validator book) cover_archive (ustr ''OEBPS/chapter1.xhtml'')
          [ustr ''OEBPS/chapter1.xhtml''])
     = [ustr ''Missing: 'OEBPS/cover page.jpg' (referenced in 'OEBPS/chapter1.xhtml')'']
   \<and> verify_resource (init_validator book) (ustr ''cover%20page.jpg'') (ustr ''OEBPS'')
        [ustr ''OEBPS/cover page.jpg''] (ustr ''OEBPS/chapter1.xhtml'')
     = init_validator book
   \<and> missing_resources
       (verify_resource (init_validator book) (ustr ''cover%20page.jpg'') (ustr ''OEBPS'')
          [ustr ''OEBPS/cover%20page.jpg''] (ustr ''OEBPS/chapter1.xhtml''))
     = [ustr ''Missing: 'OEBPS/cover page.jpg' (referenced in 'OEBPS/chapter1.xhtml')'']"
proof -
  let ?d = "ustr ''OEBPS/chapter1.xhtml''"
  let ?r = "ustr ''cover%20page.jpg''"
  have o: "open_soup cover_archive ?d = Inr [img_tag ?r]"
    by (simp add: cover_archive_def)
  have rf: "references [img_tag ?r] = [?r]" by code_simp
  have tg: "spec_target ?r ?d = ustr ''OEBPS/cover page.jpg''" by code_simp
  have e: "\<not> startswith_any ?r external_schemes" by code_simp
  have n: "ustr ''OEBPS/cover page.jpg'' \<notin> set [?d]" by code_simp
  have m: "missing_message (ustr ''OEBPS/cover page.jpg'') ?d
           = ustr ''Missing: 'OEBPS/cover page.jpg' (referenced in 'OEBPS/chapter1.xhtml')''"
    by code_simp
  have i: "missing_resources (init_validator book) = []" by (simp add: init_validator_def)
  have s: "\<forall>c \<in> set (ustr ''cover''). c < 128 \<and> c \<noteq> percent" by code_simp
  have t: "\<forall>c \<in> set (ustr ''page.jpg''). c < 128 \<and> c \<noteq> percent" by code_simp
  have h: "is_hexdig 50 \<and> is_hexdig 48 \<and> 16 * hexval 50 + hexval 48 < 128" by code_simp
  have sp: "ustr ''cover'' @ [percent, 50, 48] @ ustr ''page.jpg'' = ?r" by code_simp
  have dc: "ustr ''cover'' @ [16 * hexval 50 + hexval 48] @ ustr ''page.jpg'' = ustr ''cover page.jpg''"
    by code_simp
  have np: "normpath (join (ustr ''OEBPS'') (ustr ''cover page.jpg'')) = ustr ''OEBPS/cover page.jpg''"
    by code_simp
  have n2: "ustr ''OEBPS/cover page.jpg'' \<notin> set [ustr ''OEBPS/cover%20page.jpg'']" by code_simp
  note A = resolved_target_path [where zf = cover_archive and d = ?d and sp = "[img_tag ?r]"
             and self = "init_validator book" and all_files = "[?d]"]
  have c1: "missing_resources (scan_file_for_images (init_validator book) cover_archive ?d [?d])
     = [ustr ''Missing: 'OEBPS/cover page.jpg' (referenced in 'OEBPS/chapter1.xhtml')'']"
    using A o rf tg e n m i by simp
  note B = resolved_target_path [where s = "ustr ''cover''" and t = "ustr ''page.jpg''"
             and a = 50 and b = 48 and self = "init_validator book" and d = ?d
             and base_dir = "ustr ''OEBPS''", unfolded sp dc np]
  have c2: "verify_resource (init_validator book) ?r (ustr ''OEBPS'')
        [ustr ''OEBPS/cover page.jpg''] ?d = init_validator book"
    using B [where all_files = "[ustr ''OEBPS/cover page.jpg'']"] s t h e by simp
  have "verify_resource (init_validator book) ?r (ustr ''OEBPS'')
          [ustr ''OEBPS/cover%20page.jpg''] ?d
        = (init_validator book)\<lparr>missing_resources := missing_resources (init_validator book)
             @ [missing_message (ustr ''OEBPS/cover page.jpg'') ?d]\<rparr>"
    using B [where all_files = "[ustr ''OEBPS/cover%20page.jpg'']"] s t h e n2 by simp
  then have c3: "missing_resources (verify_resource (init_validator book) ?r (ustr ''OEBPS'')
          [ustr ''OEBPS/cover%20page.jpg''] ?d)
     = [ustr ''Missing: 'OEBPS/cover page.jpg' (referenced in 'OEBPS/chapter1.xhtml')'']"
    by (simp add: m i)
  show ?thesis using o s t h e c1 c2 c3 by (simp add: list_all_iff)
qed

text \<open>
  C3. A reference that starts with \<open>http:\<close>, \<open>https:\<close>, \<open>data:\<close> or \<open>mailto:\<close> is
  skipped: \<open>verify_resource\<close> leaves the validator as it is, whatever the entry names are,
  also when an entry has the same name as the reference.
\<close>

theorem external_reference_skipped:
  assumes "startswith src (ustr ''http:'') \<or> startswith src (ustr ''https:'')
           \<or> startswith src (ustr ''data:'') \<or> startswith src (ustr ''mailto:'')"
  shows "verify_resource self src base_dir all_files context_file = self"
  using assms by (auto simp: verify_resource_def startswith_any_def external_schemes_def)

theorem external_reference_skipped_witness:
  "startswith (ustr ''http://host/pic.jpg'') (ustr ''http:'')
   \<and> verify_resource (init_validator book) (ustr ''http://host/pic.jpg'') []
        [ustr ''chapter1.xhtml''] (ustr ''chapter1.xhtml'') = init_validator book
   \<and> verify_resource (init_validator book) (ustr ''data:pic.jpg'') []
        [ustr ''chapter1.xhtml'', ustr ''data:pic.jpg''] (ustr ''chapter1.xhtml'') = init_validator book"
proof -
  have h: "startswith (ustr ''http://host/pic.jpg'') (ustr ''http:'')" by code_simp
  have g: "startswith (ustr ''data:pic.jpg'') (ustr ''data:'')" by code_simp
  show ?thesis
    using h external_reference_skipped [of "ustr ''http://host/pic.jpg''"]
          external_reference_skipped [of "ustr ''data:pic.jpg''"] g
    by blast
qed

text \<open>
  C4. What \<open>verify_resource\<close> appends is determined by the reference, the directory, the
  entry names and the referencing document, and not by the validator it is applied to;
  visiting the same references of the same documents in another order gives the same
  descriptions, up to their order.
\<close>

theorem resolution_is_pure:
  "(\<exists>appended. \<forall>self. verify_resource self src base_dir all_files context_file
        = self\<lparr>missing_resources := missing_resources self @ appended\<rparr>)
   \<and> (mset refs = mset refs' \<longrightarrow>
        mset (missing_resources
               (fold (\<lambda>(src, d) s. verify_resource s src (dirname d) all_files d) refs self))
        = mset (missing_resources
               (fold (\<lambda>(src, d) s. verify_resource s src (dirname d) all_files d) refs' self)))"
proof
  show "\<exists>appended. \<forall>self. verify_resource self src base_dir all_files context_file
        = self\<lparr>missing_resources := missing_resources self @ appended\<rparr>"
    using verify_resource_verdict by blast
  show "mset refs = mset refs' \<longrightarrow>
        mset (missing_resources
               (fold (\<lambda>(src, d) s. verify_resource s src (dirname d) all_files d) refs self))
        = mset (missing_resources
               (fold (\<lambda>(src, d) s. verify_resource s src (dirname d) all_files d) refs' self))"
    by (simp add: fold_verify_pairs mset_concat_map)
qed

theorem resolution_is_pure_witness:
  "mset [(ustr ''a.png'', ustr ''x/one.html''), (ustr ''b.png'', ustr ''two.html'')]
     = mset [(ustr ''b.png'', ustr ''two.html''), (ustr ''a.png'', ustr ''x/one.html'')]
   \<and> mset (missing_resources
            (fold (\<lambda>(src, d) s. verify_resource s src (dirname d) [ustr ''b.png''] d)
               [(ustr ''a.png'', ustr ''x/one.html''), (ustr ''b.png'', ustr ''two.html'')]
               (init_validator book)))
     = mset (missing_resources
            (fold (\<lambda>(src, d) s. verify_resource s src (dirname d) [ustr ''b.png''] d)
               [(ustr ''b.png'', ustr ''two.html''), (ustr ''a.png'', ustr ''x/one.html'')]
               (init_validator book)))
   \<and> missing_resources
        (fold (\<lambda>(src, d) s. verify_resource s src (dirname d) [ustr ''b.png''] d)
               [(ustr ''a.png'', ustr ''x/one.html''), (ustr ''b.png'', ustr ''two.html'')]
               (init_validator book))
     = [ustr ''Missing: 'x/a.png' (referenced in 'x/one.html')'']"
proof -
  have h: "mset [(ustr ''a.png'', ustr ''x/one.html''), (ustr ''b.png'', ustr ''two.html'')]
     = mset [(ustr ''b.png'', ustr ''two.html''), (ustr ''a.png'', ustr ''x/one.html'')]"
    by (simp add: add.commute)
  have v: "missing_resources
        (fold (\<lambda>(src, d) s. verify_resource s src (dirname d) [ustr ''b.png''] d)
               [(ustr ''a.png'', ustr ''x/one.html''), (ustr ''b.png'', ustr ''two.html'')]
               (init_validator book))
     = [ustr ''Missing: 'x/a.png' (referenced in 'x/one.html')'']"
    by code_simp
  show ?thesis
    using h v
      resolution_is_pure [where
        refs = "[(ustr ''a.png'', ustr ''x/one.html''), (ustr ''b.png'', ustr ''two.html'')]"
        and refs' = "[(ustr ''b.png'', ustr ''two.html''), (ustr ''a.png'', ustr ''x/one.html'')]"
        and all_files = "[ustr ''b.png'']" and self = "init_validator book"]
    by blast
qed




text \<open>
  C6, as stated, fails: an archive that opens and whose only content document cannot be
  read is reported valid, because \<open>scan_file_for_images\<close> catches the error.
\<close>

theorem read_error_not_reported_counterexample:
  "is_zipfile (mk_world [book \<mapsto> Zip unreadable_archive]) book
   \<and> \<not> isl (ZipFile (mk_world [book \<mapsto> Zip unreadable_archive]) book)
   \<and> py_set (namelist unreadable_archive) = [ustr ''chapter1.xhtml'']
   \<and> is_content_document (ustr ''chapter1.xhtml'')
   \<and> isl (open_soup unreadable_archive (ustr ''chapter1.xhtml''))
   \<and> fst (validate (mk_world [book \<mapsto> Zip unreadable_archive]) (init_validator book))"
  by code_simp

text \<open>
  C6, amended. An exception other than \<open>BadZipFile\<close> raised by the constructor
  \<open>ZipFile\<close> on a path that \<open>is_zipfile\<close> accepts aborts the validation: the result is
  false, \<open>is_valid_zip\<close> stays true, no missing resource is recorded and an error is
  logged. An exception raised while a content document is read or parsed leaves the
  validator as it is.
\<close>

theorem open_error_reported_invalid:
  "(is_zipfile w p \<and> ZipFile w p = Inl (OtherException m) \<longrightarrow>
      validate w (init_validator p)
      = (False, \<lparr>file_path = p, missing_resources = [], is_valid_zip = True\<rparr>,
         logger ERROR (ustr ''Error processing '' @ name p @ ustr '': '' @ m) w))
   \<and> (open_soup zf d = Inl e \<longrightarrow> scan_file_for_images self zf d all_files = self)"
  by (auto simp: validate_def init_validator_def scan_raises)

theorem open_error_reported_invalid_witness:
  "is_zipfile unopenable_world book
   \<and> ZipFile unopenable_world book = Inl (OtherException (ustr ''zip file version 9.9''))
   \<and> fst (validate unopenable_world (init_validator book)) = False
   \<and> missing_resources (fst (snd (validate unopenable_world (init_validator book)))) = []
   \<and> is_valid_zip (fst (snd (validate unopenable_world (init_validator book))))
   \<and> log (snd (snd (validate unopenable_world (init_validator book))))
       = [(ERROR, ustr ''Error processing a.epub: zip file version 9.9'')]"
proof -
  have h: "is_zipfile unopenable_world book" by code_simp
  have z: "ZipFile unopenable_world book = Inl (OtherException (ustr ''zip file version 9.9''))"
    by (simp add: ZipFile_def unopenable_world_def mk_world_def)
  have l: "log (logger ERROR (ustr ''Error processing '' @ name book @ ustr '': ''
                  @ ustr ''zip file version 9.9'') unopenable_world)
           = [(ERROR, ustr ''Error processing a.epub: zip file version 9.9'')]"
    by code_simp
  show ?thesis
    using h z l
      open_error_reported_invalid [where w = unopenable_world and p = book
        and m = "ustr ''zip file version 9.9''"]
    by simp
qed



text \<open>
  C8. When the resolved target path of a reference that is not external is not an entry
  of the archive, exactly one description
  \<open>Missing: '<target path>' (referenced in '<document>')\<close> is appended. An archive with the
  single entry \<open>chapter1.xhtml\<close>, which contains \<open><img src="pic.jpg">\<close>, is reported
  broken with the single description \<open>Missing: 'pic.jpg' (referenced in 'chapter1.xhtml')\<close>.
\<close>

theorem missing_description_appended:
  "(\<not> startswith_any src external_schemes
      \<and> normpath (join base_dir (unquote src)) \<notin> set all_files \<longrightarrow>
      missing_resources (verify_resource self src base_dir all_files context_file)
      = missing_resources self
        @ [ustr ''Missing: '' @ [quote] @ normpath (join base_dir (unquote src)) @ [quote]
           @ ustr '' (referenced in '' @ [quote] @ context_file @ [quote] @ ustr '')''])
   \<and> fst (validate (mk_world [book \<mapsto> Zip scenario2_archive]) (init_validator book)) = False
   \<and> missing_resources
        (fst (snd (validate (mk_world [book \<mapsto> Zip scenario2_archive]) (init_validator book))))
      = [ustr ''Missing: 'pic.jpg' (referenced in 'chapter1.xhtml')'']"
proof (intro conjI)
  show "\<not> startswith_any src external_schemes
      \<and> normpath (join base_dir (unquote src)) \<notin> set all_files \<longrightarrow>
      missing_resources (verify_resource self src base_dir all_files context_file)
      = missing_resources self
        @ [ustr ''Missing: '' @ [quote] @ normpath (join base_dir (unquote src)) @ [quote]
           @ ustr '' (referenced in '' @ [quote] @ context_file @ [quote] @ ustr '')'']"
    by (simp add: verify_resource_internal missing_message_def)
  show "fst (validate (mk_world [book \<mapsto> Zip scenario2_archive]) (init_validator book)) = False"
    by code_simp
  show "missing_resources
        (fst (snd (validate (mk_world [book \<mapsto> Zip scenario2_archive]) (init_validator book))))
      = [ustr ''Missing: 'pic.jpg' (referenced in 'chapter1.xhtml')'']"
    by code_simp
qed

theorem missing_description_appended_witness:
  "\<not> startswith_any (ustr ''pic.jpg'') external_schemes
   \<and> normpath (join [] (unquote (ustr ''pic.jpg''))) \<notin> set [ustr ''chapter1.xhtml'']
   \<and> missing_resources
       (verify_resource (init_validator book) (ustr ''pic.jpg'') [] [ustr ''chapter1.xhtml'']
          (ustr ''chapter1.xhtml''))
     = [ustr ''Missing: 'pic.jpg' (referenced in 'chapter1.xhtml')'']"
proof -
  have e: "\<not> startswith_any (ustr ''pic.jpg'') external_schemes" by code_simp
  have t: "normpath (join [] (unquote (ustr ''pic.jpg''))) = ustr ''pic.jpg''" by code_simp
  have n: "ustr ''pic.jpg'' \<notin> set [ustr ''chapter1.xhtml'']" by code_simp
  have m: "ustr ''Missing: '' @ [quote] @ ustr ''pic.jpg'' @ [quote]
           @ ustr '' (referenced in '' @ [quote] @ ustr ''chapter1.xhtml'' @ [quote] @ ustr '')''
         = ustr ''Missing: 'pic.jpg' (referenced in 'chapter1.xhtml')''"
    by code_simp
  have i: "missing_resources (init_validator book) = []" by (simp add: init_validator_def)
  show ?thesis
    using e t n m i
      missing_description_appended [where src = "ustr ''pic.jpg''" and base_dir = "[]"
        and all_files = "[ustr ''chapter1.xhtml'']" and self = "init_validator book"
        and context_file = "ustr ''chapter1.xhtml''"]
    by simp
qed

text \<open>
  C10. The test for an external scheme is made on the reference as written, before it is
  URL-decoded: a reference that does not start with a scheme but whose decoded form does
  is not skipped; it is decoded, resolved as a path of the archive, and reported missing
  when that path is not an entry.
\<close>

theorem scheme_checked_before_decoding:
  assumes "\<not> startswith_any src external_schemes"
      and "startswith_any (unquote src) external_schemes"
  shows "verify_resource self src base_dir all_files context_file =
     (if normpath (join base_dir (unquote src)) \<in> set all_files then self
      else self\<lparr>missing_resources := missing_resources self
             @ [missing_message (normpath (join base_dir (unquote src))) context_file]\<rparr>)"
  using assms(1) by (rule verify_resource_internal)

theorem scheme_checked_before_decoding_witness:
  "\<not> startswith_any (ustr ''http%3A//host/img.png'') external_schemes
   \<and> startswith_any (unquote (ustr ''http%3A//host/img.png'')) external_schemes
   \<and> unquote (ustr ''http%3A//host/img.png'') = ustr ''http://host/img.png''
   \<and> missing_resources
       (verify_resource (init_validator book) (ustr ''http%3A//host/img.png'') []
          [ustr ''index.xhtml''] (ustr ''index.xhtml''))
     = [ustr ''Missing: 'http:/host/img.png' (referenced in 'index.xhtml')'']"
proof -
  have a: "\<not> startswith_any (ustr ''http%3A//host/img.png'') external_schemes" by code_simp
  have b: "startswith_any (unquote (ustr ''http%3A//host/img.png'')) external_schemes" by code_simp
  have u: "unquote (ustr ''http%3A//host/img.png'') = ustr ''http://host/img.png''" by code_simp
  have t: "normpath (join [] (ustr ''http://host/img.png'')) = ustr ''http:/host/img.png''"
    by code_simp
  have n: "ustr ''http:/host/img.png'' \<notin> set [ustr ''index.xhtml'']" by code_simp
  have m: "missing_message (ustr ''http:/host/img.png'') (ustr ''index.xhtml'')
           = ustr ''Missing: 'http:/host/img.png' (referenced in 'index.xhtml')''"
    by code_simp
  have i: "missing_resources (init_validator book) = []" by (simp add: init_validator_def)
  show ?thesis
    using a b u t n m i
      scheme_checked_before_decoding [OF a b, of "init_validator book" "[]"
        "[ustr ''index.xhtml'']" "ustr ''index.xhtml''"]
    by simp
qed

section \<open>Properties of the sorter\<close>



lemma fs_logger [simp]: "fs (logger lvl msg w) = fs w"
  by (simp add: logger_def)

lemma move_error_logger [simp]: "move_error (logger lvl msg w) = move_error w"
  by (simp add: logger_def)








lemma fs_log_errors [simp]: "fs (log_errors errors w) = fs w"
  by (induction errors arbitrary: w) simp_all







end
